theory Spec2Isabelle
  imports Complex_Main
begin

section \<open>Data model\<close>

text \<open>
  The sources are \<^verbatim>\<open>tuner.py\<close> (Python 2) and \<^verbatim>\<open>tuner/methods/RSM.py\<close>.
  Python integers are \<open>int\<close>, Python floats are idealised as \<open>real\<close>, strings are
  \<open>string\<close>, and \<^verbatim>\<open>None\<close> is \<open>None\<close> of an option type. Calls of the logger are left
  out: they change nothing that the functions return or hand to their collaborators.
\<close>

text \<open>A Point is the pair (num_gangs, vector_length); \<^verbatim>\<open>x[0]\<close> is \<open>fst x\<close>, \<^verbatim>\<open>x[1]\<close> is \<open>snd x\<close>.\<close>

type_synonym point = "int \<times> int"

text \<open>The Python exceptions that the modelled code can raise.\<close>

datatype exn = ValueError | ZeroDivisionError | IndexError | KeyError

text \<open>
  Modelled from the spec: the class \<^verbatim>\<open>TestResult\<close> (module \<^verbatim>\<open>testresult\<close> is not among the
  sources). The spec gives a Result the fields point, mean, stdev and error, the last three
  possibly absent; the sources construct it as \<^verbatim>\<open>TestResult(point, average, stdev, error)\<close>
  and read \<^verbatim>\<open>.point\<close>, \<^verbatim>\<open>.average\<close> and \<^verbatim>\<open>.stdev\<close>. An argument that a call leaves out
  is \<open>None\<close>.
\<close>

record test_result =
  point :: point
  average :: "real option"
  stdev :: "real option"
  error :: "string option"

definition TestResult ::
  "point \<Rightarrow> real option \<Rightarrow> real option \<Rightarrow> string option \<Rightarrow> test_result" where
  "TestResult x avg sd err = \<lparr>point = x, average = avg, stdev = sd, error = err\<rparr>"

text \<open>
  \<^verbatim>\<open>TuningOptions\<close>, with the fields that the modelled functions read. The compiled regular
  expression \<^verbatim>\<open>time_regexp\<close> is the function from an output to the text of group 1 of its
  first match (\<open>None\<close>: no match).
\<close>

record tuning_options =
  source :: "string option"
  executable :: string
  compile_command :: string
  search_method :: string
  use_heuristic :: bool
  repetitions :: int
  time_regexp :: "string \<Rightarrow> string option"
  num_gangs_min :: int
  num_gangs_max :: int
  vector_length_min :: int
  vector_length_max :: int
  ignore_exit :: bool
  kernel_timing :: bool

definition PGCC_COMPILE :: string where
  "PGCC_COMPILE = ''pgcc -acc -DNUM_GANGS={num_gangs} -DVECTOR_LENGTH={vector_length} {source}''"

text \<open>\<^verbatim>\<open>TuningOptions()\<close> with every argument at its default, for a given default pattern.\<close>

definition TuningOptions :: "(string \<Rightarrow> string option) \<Rightarrow> tuning_options" where
  "TuningOptions TIME_RE =
     \<lparr>source = None, executable = ''./a.out'', compile_command = PGCC_COMPILE,
      search_method = ''nelder-mead'', use_heuristic = False, repetitions = 10,
      time_regexp = TIME_RE, num_gangs_min = 2, num_gangs_max = 1024,
      vector_length_min = 2, vector_length_max = 1024, ignore_exit = False,
      kernel_timing = False\<rparr>"

subsection \<open>The outside world\<close>

text \<open>
  An external process is started with a command line and, for the compiler, an environment
  (a dictionary from variable names to values).
\<close>

record call =
  command :: string
  env :: "(string \<rightharpoonup> string) option"

text \<open>
  Everything the harness does to its collaborators is an event, kept in the order in which
  it happens: a process started by \<^verbatim>\<open>call_command\<close>, a raw timing handed to
  \<^verbatim>\<open>output_writer.log_run\<close>, a Result handed to \<^verbatim>\<open>output_writer.add\<close>.
\<close>

datatype event = Call call | LogRun point real | Add test_result

record world =
  os_environ :: "string \<rightharpoonup> string"
  events :: "event list"

text \<open>
  What the sources import and the repository's files do not define is a parameter:
  \<^item> \<open>respond k c\<close>: the output and the exit code of the process that \<^verbatim>\<open>call_command\<close>
    starts with call \<open>c\<close> when \<open>k\<close> processes have been started before it;
  \<^item> \<open>format_command\<close>: \<^verbatim>\<open>str.format\<close> of the compile template with the keywords source,
    num_gangs and vector_length (it raises on a template that names another field);
  \<^item> \<open>kernel_timing_re\<close>: group 1 of the first match of \<^verbatim>\<open>KERNEL_TIMING_RE\<close>;
  \<^item> \<open>float_of\<close>: \<^verbatim>\<open>float\<close> of a string, \<open>None\<close> where Python raises ValueError;
  \<^item> \<open>str_point\<close>: the text of a Point in a message;
  \<^item> \<open>is_diff_significant\<close>: the two-sample test of module \<^verbatim>\<open>stats\<close>.
\<close>

record platform =
  respond :: "nat \<Rightarrow> call \<Rightarrow> string \<times> int"
  format_command :: "string \<Rightarrow> string option \<Rightarrow> int \<Rightarrow> int \<Rightarrow> exn + string"
  kernel_timing_re :: "string \<Rightarrow> string option"
  float_of :: "string \<Rightarrow> real option"
  str_point :: "point \<Rightarrow> string"
  is_diff_significant ::
    "real option \<Rightarrow> real option \<Rightarrow> int \<Rightarrow> real option \<Rightarrow> real option \<Rightarrow> int \<Rightarrow> exn + bool"

fun is_call :: "event \<Rightarrow> bool" where
  "is_call (Call c) = True"
| "is_call (LogRun x t) = False"
| "is_call (Add r) = False"

definition ncalls :: "world \<Rightarrow> nat" where
  "ncalls w = length (filter is_call (events w))"

definition call_command :: "platform \<Rightarrow> call \<Rightarrow> world \<Rightarrow> (string \<times> int) \<times> world" where
  "call_command P c w = (respond P (ncalls w) c, w\<lparr>events := events w @ [Call c]\<rparr>)"

definition output_writer_log_run :: "point \<Rightarrow> real \<Rightarrow> world \<Rightarrow> world" where
  "output_writer_log_run x t w = w\<lparr>events := events w @ [LogRun x t]\<rparr>"

definition output_writer_add :: "test_result \<Rightarrow> world \<Rightarrow> world" where
  "output_writer_add r w = w\<lparr>events := events w @ [Add r]\<rparr>"

text \<open>Python's \<^verbatim>\<open>str\<close> of an integer: decimal digits, a minus sign when negative.\<close>

function str_nat :: "nat \<Rightarrow> string" where
  "str_nat n =
     (if n < 10 then [''0123456789'' ! n]
      else str_nat (n div 10) @ [''0123456789'' ! (n mod 10)])"
  by pat_completeness auto
termination
  by (relation "measure id") auto

definition str_int :: "int \<Rightarrow> string" where
  "str_int i = (if i < 0 then CHR ''-'' # str_nat (nat (- i)) else str_nat (nat i))"

section \<open>Live mode: \<^verbatim>\<open>gen_tuning_function\<close>\<close>

text \<open>
  The timing of one run, as the body of the repetition loop reads it from the output:
  the error message of the Result when the pattern does not match, the exception when
  \<^verbatim>\<open>float\<close> raises, the time otherwise. In kernel-timing mode the commas are removed and
  the microseconds scaled by \<^verbatim>\<open>1e-6\<close>.
\<close>

datatype timing = Missing string | Invalid exn | Timing real

definition read_time :: "platform \<Rightarrow> tuning_options \<Rightarrow> string \<Rightarrow> timing" where
  "read_time P opts output =
     (if kernel_timing opts then
        (case kernel_timing_re P output of
           None \<Rightarrow> Missing ''PGI kernel timing data missing''
         | Some g \<Rightarrow>
             (case float_of P (filter (\<lambda>c. c \<noteq> CHR '','') g) of
                None \<Rightarrow> Invalid ValueError
              | Some t \<Rightarrow> Timing (t * (1 / 1000000))))
      else
        (case time_regexp opts output of
           None \<Rightarrow> Missing ''Timing data missing''
         | Some g \<Rightarrow>
             (case float_of P g of
                None \<Rightarrow> Invalid ValueError
              | Some t \<Rightarrow> Timing t)))"

text \<open>
  \<^verbatim>\<open>for i in range(repetitions)\<close>, with the number of repetitions still to run. The loop
  returns the Result that a \<^verbatim>\<open>break\<close> has set (\<open>None\<close> when it ran to its end) and the list
  \<^verbatim>\<open>results\<close>.
\<close>

fun run_repetitions ::
  "platform \<Rightarrow> tuning_options \<Rightarrow> point \<Rightarrow> nat \<Rightarrow> real list \<Rightarrow> world
     \<Rightarrow> (exn + test_result option \<times> real list) \<times> world" where
  "run_repetitions P opts x 0 results w = (Inr (None, results), w)"
| "run_repetitions P opts x (Suc k) results w =
     (let ((output, return_code), w1) =
            call_command P \<lparr>command = executable opts, env = None\<rparr> w
      in if return_code \<noteq> 0 \<and> \<not> ignore_exit opts then
           (Inr (Some (TestResult x None None (Some ''Executable failed'')), results), w1)
         else
           (case read_time P opts output of
              Missing msg \<Rightarrow> (Inr (Some (TestResult x None None (Some msg)), results), w1)
            | Invalid e \<Rightarrow> (Inl e, w1)
            | Timing t \<Rightarrow>
                run_repetitions P opts x k (results @ [t]) (output_writer_log_run x t w1)))"

text \<open>
  The dictionary \<^verbatim>\<open>env\<close> of the compile command: the two variables of the Point, then
  \<^verbatim>\<open>env.update(os.environ)\<close>, in which a key of \<^verbatim>\<open>os.environ\<close> replaces an equal key.
\<close>

definition compile_env :: "point \<Rightarrow> world \<Rightarrow> (string \<rightharpoonup> string)" where
  "compile_env x w =
     (let (num_gangs, vector_length) = x;
          env0 = [''NUM_GANGS'' \<mapsto> str_int num_gangs,
                  ''VECTOR_LENGTH'' \<mapsto> str_int vector_length]
      in env0 ++ os_environ w)"

text \<open>The function \<^verbatim>\<open>fn\<close> that \<^verbatim>\<open>gen_tuning_function(opts, output_writer)\<close> returns.\<close>

definition gen_tuning_function ::
  "platform \<Rightarrow> tuning_options \<Rightarrow> point \<Rightarrow> int \<Rightarrow> world \<Rightarrow> (exn + test_result) \<times> world" where
  "gen_tuning_function P opts x reps w =
     (let (num_gangs, vector_length) = x in
      case format_command P (compile_command opts) (source opts) num_gangs vector_length of
        Inl e \<Rightarrow> (Inl e, w)
      | Inr cmd \<Rightarrow>
          let ((output, return_code), w1) =
                 call_command P \<lparr>command = cmd, env = Some (compile_env x w)\<rparr> w
          in if return_code \<noteq> 0 then
               let result = TestResult x None None (Some ''Compile command failed'')
               in (Inr result, output_writer_add result w1)
             else
               (case run_repetitions P opts x (nat reps) [] w1 of
                  (Inl e, w2) \<Rightarrow> (Inl e, w2)
                | (Inr (broken, results), w2) \<Rightarrow>
                    let result =
                      (case broken of
                         Some r \<Rightarrow> r
                       | None \<Rightarrow>
                           if results = [] then
                             TestResult x None None (Some ''No points tested'')
                           else
                             let n = length results;
                                 avg = sum_list results / real n;
                                 sd = (if n = 1 then 0
                                       else sqrt (sum_list (map (\<lambda>y. (y - avg)\<^sup>2) results)
                                                  / real (n - 1)))
                             in TestResult x (Some avg) (Some sd) None)
                    in (Inr result, output_writer_add result w2)))"

section \<open>Replay mode: \<^verbatim>\<open>load_testing_data\<close> and \<^verbatim>\<open>gen_testing_function\<close>\<close>

text \<open>
  The dictionary \<^verbatim>\<open>csv_data\<close> maps a Point to the values of its row. It is kept as the
  list of its items, in the order in which Python iterates over it. \<^verbatim>\<open>csv.DictReader\<close>
  yields the text of a field, the empty string for an empty field, and \<^verbatim>\<open>None\<close> only for
  a field that a short row lacks.
\<close>

record csv_values =
  csv_time :: real
  csv_stdev :: real
  csv_error_msg :: "string option"

type_synonym csv_data = "(point \<times> csv_values) list"

text \<open>\<^verbatim>\<open>sorted(csv_data, key=lambda x: csv_data[x]['time'])\<close>: a stable sort of the keys.\<close>

definition sdata :: "csv_data \<Rightarrow> point list" where
  "sdata d = sort_key (\<lambda>k. csv_time (the (map_of d k))) (map fst d)"

text \<open>\<^verbatim>\<open>known_best_result\<close>; \<^verbatim>\<open>sdata[0]\<close> raises IndexError on an empty dataset.\<close>

definition known_best_result :: "csv_data \<Rightarrow> exn + test_result" where
  "known_best_result d =
     (case sdata d of
        [] \<Rightarrow> Inl IndexError
      | best # rest \<Rightarrow>
          (let values = the (map_of d best)
           in Inr (TestResult best (Some (csv_time values)) (Some (csv_stdev values))
                     (csv_error_msg values))))"

text \<open>The loop of \<^verbatim>\<open>percentile\<close> over \<^verbatim>\<open>sdata\<close>, with its \<^verbatim>\<open>break\<close>.\<close>

fun percentile_loop :: "csv_data \<Rightarrow> point list \<Rightarrow> real \<Rightarrow> nat \<Rightarrow> nat" where
  "percentile_loop d [] t count = count"
| "percentile_loop d (k # ks) t count =
     (if csv_time (the (map_of d k)) \<le> t then percentile_loop d ks t (count + 1)
      else count)"

text \<open>Python 2's \<^verbatim>\<open>int(round(x))\<close>: to the nearest integer, a half away from zero.\<close>

definition int_round :: "real \<Rightarrow> int" where
  "int_round x = (if 0 \<le> x then \<lfloor>x + 1 / 2\<rfloor> else \<lceil>x - 1 / 2\<rceil>)"

definition percentile :: "csv_data \<Rightarrow> real \<Rightarrow> exn + int" where
  "percentile d t =
     (let n = length (sdata d);
          count = percentile_loop d (sdata d) t 0
      in if n = 0 then Inl ZeroDivisionError
         else Inr (int_round (real count / real n * 100)))"

text \<open>The function \<^verbatim>\<open>fn\<close> that \<^verbatim>\<open>gen_testing_function\<close> returns, for the loaded \<^verbatim>\<open>csv_data\<close>.\<close>

definition gen_testing_function ::
  "platform \<Rightarrow> csv_data \<Rightarrow> point \<Rightarrow> int \<Rightarrow> world \<Rightarrow> (exn + test_result) \<times> world" where
  "gen_testing_function P d x reps w =
     (let result =
        (case map_of d x of
           None \<Rightarrow> TestResult x None None (Some (str_point P x @ '' not in CSV data''))
         | Some values \<Rightarrow>
             (case csv_error_msg values of
                Some msg \<Rightarrow> TestResult x None None (Some msg)
              | None \<Rightarrow>
                  TestResult x (Some (csv_time values)) (Some (csv_stdev values)) None))
      in (Inr result, output_writer_add result w))"

section \<open>The objective function of \<^verbatim>\<open>tune\<close> and the heuristic\<close>

definition endswith :: "string \<Rightarrow> string \<Rightarrow> bool" where
  "endswith s suffix = (drop (length s - length suffix) s = suffix)"

text \<open>
  \<^verbatim>\<open>run_test\<close> as \<^verbatim>\<open>tune\<close> chooses it; \<open>d\<close> is the dataset loaded from the file that
  \<^verbatim>\<open>opts.source\<close> names.
\<close>

definition run_test ::
  "platform \<Rightarrow> tuning_options \<Rightarrow> csv_data
     \<Rightarrow> point \<Rightarrow> int \<Rightarrow> world \<Rightarrow> (exn + test_result) \<times> world" where
  "run_test P opts d =
     (case source opts of
        None \<Rightarrow> gen_tuning_function P opts
      | Some s \<Rightarrow>
          if endswith s ''.csv'' then gen_testing_function P d
          else gen_tuning_function P opts)"

text \<open>The closure \<^verbatim>\<open>objective\<close> of \<^verbatim>\<open>tune\<close>, over the \<^verbatim>\<open>run_test\<close> and the options it reads.\<close>

definition objective ::
  "(point \<Rightarrow> int \<Rightarrow> world \<Rightarrow> (exn + test_result) \<times> world) \<Rightarrow> tuning_options
     \<Rightarrow> point \<Rightarrow> world \<Rightarrow> (exn + test_result) \<times> world" where
  "objective rt opts x w =
     (let out_of_range = TestResult x None None (Some ''Point out of range'')
      in if fst x < num_gangs_min opts \<or> fst x > num_gangs_max opts then
           (Inr out_of_range, w)
         else if snd x < vector_length_min opts \<or> snd x > vector_length_max opts then
           (Inr out_of_range, w)
         else rt x (repetitions opts) w)"

text \<open>
  \<^verbatim>\<open>run_heuristic(objective, opts)\<close>. It changes \<^verbatim>\<open>opts\<close> in place, so the model returns
  the options next to the result.
\<close>

definition run_heuristic ::
  "platform \<Rightarrow> (point \<Rightarrow> world \<Rightarrow> (exn + test_result) \<times> world) \<Rightarrow> tuning_options \<Rightarrow> world
     \<Rightarrow> (exn + bool \<times> bool) \<times> tuning_options \<times> world" where
  "run_heuristic P obj opts w =
     (case obj (256, 128) w of
        (Inl e, w1) \<Rightarrow> (Inl e, opts, w1)
      | (Inr i, w1) \<Rightarrow>
     (case obj (1024, 128) w1 of
        (Inl e, w2) \<Rightarrow> (Inl e, opts, w2)
      | (Inr g, w2) \<Rightarrow>
     (case obj (256, 1024) w2 of
        (Inl e, w3) \<Rightarrow> (Inl e, opts, w3)
      | (Inr v, w3) \<Rightarrow>
          let n = repetitions opts in
          if n = 1 \<or> stdev i = Some 0 \<or> stdev g = Some 0 \<or> stdev v = Some 0 then
            (Inr (True, True), opts, w3)
          else
            (case is_diff_significant P (average i) (stdev i) n (average g) (stdev g) n of
               Inl e \<Rightarrow> (Inl e, opts, w3)
             | Inr tune_num_gangs \<Rightarrow>
            (case is_diff_significant P (average i) (stdev i) n (average v) (stdev v) n of
               Inl e \<Rightarrow> (Inl e, opts, w3)
             | Inr tune_vector_length \<Rightarrow>
                 let opts1 = (if \<not> tune_num_gangs
                              then opts\<lparr>num_gangs_min := fst (point i),
                                        num_gangs_max := fst (point i)\<rparr>
                              else opts);
                     opts2 = (if \<not> tune_vector_length
                              then opts1\<lparr>vector_length_min := snd (point i),
                                         vector_length_max := snd (point i)\<rparr>
                              else opts1)
                 in (Inr (tune_num_gangs, tune_vector_length), opts2, w3))))))"

section \<open>Grid enumeration: the generator of \<^verbatim>\<open>_tune_RSM\<close>\<close>

text \<open>
  The two nested loops over \<^verbatim>\<open>range(vmin, vmax+1)\<close> and \<^verbatim>\<open>range(gmin, gmax+1)\<close>, which
  in Python 2 are lists; the Points are listed in the order in which they are yielded.
\<close>

fun vec_loop :: "int \<Rightarrow> int \<Rightarrow> int list \<Rightarrow> point list" where
  "vec_loop mul gang_mult [] = []"
| "vec_loop mul gang_mult (vec_mult # rest) =
     (let num_gangs = max (mul * gang_mult) 1;
          vector_length = max (mul * vec_mult) 1
      in (num_gangs, vector_length) # vec_loop mul gang_mult rest)"

fun gang_loop :: "int \<Rightarrow> int list \<Rightarrow> int list \<Rightarrow> point list" where
  "gang_loop mul [] vs = []"
| "gang_loop mul (gang_mult # rest) vs = vec_loop mul gang_mult vs @ gang_loop mul rest vs"

text \<open>
  \<^verbatim>\<open>int(math.ceil(a / float(mul)))\<close> is the ceiling of the quotient, and \<^verbatim>\<open>int(a / mul)\<close>
  on two integers is Python 2's floor division. Both raise ZeroDivisionError for
  \<^verbatim>\<open>mul == 0\<close>.
\<close>

definition generator :: "tuning_options \<Rightarrow> int \<Rightarrow> exn + point list" where
  "generator opts mul =
     (if mul = 0 then Inl ZeroDivisionError
      else
        let gmin = \<lceil>real_of_int (num_gangs_min opts) / real_of_int mul\<rceil>;
            gmax = num_gangs_max opts div mul;
            vmin = \<lceil>real_of_int (vector_length_min opts) / real_of_int mul\<rceil>;
            vmax = vector_length_max opts div mul
        in Inr (gang_loop mul [gmin..gmax] [vmin..vmax]))"

section \<open>Observations and concrete inputs\<close>

text \<open>The Results that \<^verbatim>\<open>output_writer.add\<close> has received, oldest first.\<close>

definition sink_results :: "world \<Rightarrow> test_result list" where
  "sink_results w = concat (map (\<lambda>e. case e of Add r \<Rightarrow> [r] | _ \<Rightarrow> []) (events w))"

text \<open>The raw timings that \<^verbatim>\<open>output_writer.log_run\<close> has received, oldest first.\<close>

definition raw_runs :: "world \<Rightarrow> (point \<times> real) list" where
  "raw_runs w = concat (map (\<lambda>e. case e of LogRun x t \<Rightarrow> [(x, t)] | _ \<Rightarrow> []) (events w))"

text \<open>The processes that \<^verbatim>\<open>call_command\<close> has started, oldest first.\<close>

definition calls :: "world \<Rightarrow> call list" where
  "calls w = concat (map (\<lambda>e. case e of Call c \<Rightarrow> [c] | _ \<Rightarrow> []) (events w))"

text \<open>
  Concrete inputs at which the theorems below are instantiated. The pattern finds the
  time in the two outputs \<^verbatim>\<open>time: 1\<close> and \<^verbatim>\<open>time: 3\<close>; the platform answers the
  process started after \<open>k\<close> others with \<open>script k\<close>.
\<close>

definition example_regexp :: "string \<Rightarrow> string option" where
  "example_regexp output =
     (if output = ''time: 1'' then Some ''1''
      else if output = ''time: 3'' then Some ''3''
      else None)"

definition example_platform :: "(nat \<Rightarrow> string \<times> int) \<Rightarrow> platform" where
  "example_platform script =
     \<lparr>respond = (\<lambda>k c. script k),
      format_command = (\<lambda>template src g v. Inr template),
      kernel_timing_re = (\<lambda>output. None),
      float_of = (\<lambda>s. if s = ''1'' then Some 1 else if s = ''3'' then Some 3 else None),
      str_point = (\<lambda>x. str_int (fst x) @ '', '' @ str_int (snd x)),
      is_diff_significant = (\<lambda>a1 s1 n1 a2 s2 n2. Inr True)\<rparr>"

text \<open>Every process succeeds; the second prints \<^verbatim>\<open>time: 1\<close>, the others \<^verbatim>\<open>time: 3\<close>.\<close>

definition all_succeed :: "nat \<Rightarrow> string \<times> int" where
  "all_succeed k = (if k = 1 then (''time: 1'', 0) else (''time: 3'', 0))"

text \<open>The process started third exits with code 1; the others print \<^verbatim>\<open>time: 1\<close>.\<close>

definition third_fails :: "nat \<Rightarrow> string \<times> int" where
  "third_fails k = (if k = 2 then ([], 1) else (''time: 1'', 0))"

definition example_world :: world where
  "example_world = \<lparr>os_environ = Map.empty, events = []\<rparr>"

text \<open>A world whose process environment already has a variable \<^verbatim>\<open>NUM_GANGS\<close>.\<close>

definition example_world_env :: world where
  "example_world_env = \<lparr>os_environ = [''NUM_GANGS'' \<mapsto> ''7''], events = []\<rparr>"

text \<open>
  A dataset of three rows, as \<^verbatim>\<open>load_testing_data\<close> builds it from the lines
  \<^verbatim>\<open>256,128,3,0\<close> (a short row), \<^verbatim>\<open>1024,128,1,0.5\<close> (a short row) and
  \<^verbatim>\<open>256,1024,2,0.25,\<close> (a full row with an empty last field).
\<close>

definition example_data :: csv_data where
  "example_data =
     [((256, 128), \<lparr>csv_time = 3, csv_stdev = 0, csv_error_msg = None\<rparr>),
      ((1024, 128), \<lparr>csv_time = 1, csv_stdev = 1 / 2, csv_error_msg = None\<rparr>),
      ((256, 1024), \<lparr>csv_time = 2, csv_stdev = 1 / 4, csv_error_msg = Some []\<rparr>)]"

section \<open>The bounds check of the objective function\<close>

text \<open>
  C1: a Point whose gang count or vector length lies outside the configured bounds gets
  the error Result 'Point out of range', and the world is returned as it was: no process
  is started, neither the compiler nor the executable, and no run is made. This holds for
  every \<^verbatim>\<open>run_test\<close>, the live one included.
\<close>

theorem objective_out_of_range:
  assumes "fst x < num_gangs_min opts \<or> num_gangs_max opts < fst x
           \<or> snd x < vector_length_min opts \<or> vector_length_max opts < snd x"
  shows "objective rt opts x w
         = (Inr (TestResult x None None (Some ''Point out of range'')), w)"
  using assms unfolding objective_def Let_def by auto

theorem objective_out_of_range_witness:
  "num_gangs_max (TuningOptions example_regexp) < fst (2048, 128)
   \<and> objective (gen_tuning_function (example_platform all_succeed) (TuningOptions example_regexp))
        (TuningOptions example_regexp) (2048, 128) example_world
     = (Inr (TestResult (2048, 128) None None (Some ''Point out of range'')), example_world)"
  using objective_out_of_range [of "(2048, 128)" "TuningOptions example_regexp"
          "gen_tuning_function (example_platform all_succeed) (TuningOptions example_regexp)"
          example_world]
  by (simp add: TuningOptions_def)

section \<open>Grid enumeration\<close>

lemma vec_loop_map:
  "vec_loop mul g vs = map (\<lambda>v. (max (mul * g) 1, max (mul * v) 1)) vs"
  by (induction vs) simp_all

lemma gang_loop_product:
  "gang_loop mul gs vs
   = map (\<lambda>(i, j). (max (mul * i) 1, max (mul * j) 1)) (List.product gs vs)"
  by (induction gs) (simp_all add: vec_loop_map comp_def)

lemma ceiling_one_of_128: "\<lceil>(1::real) / 128\<rceil> = 1"
  by (simp add: ceiling_eq_iff)

lemma grid_point_inj:
  assumes "0 < mul" "1 \<le> lo1" "1 \<le> lo2"
  shows "inj_on (\<lambda>(i, j). (max (mul * i) 1, max (mul * j) (1::int)))
           (set (List.product [lo1..hi1] [lo2..hi2]))"
proof (rule inj_onI, clarify)
  fix i j i' j' :: int
  assume "(i, j) \<in> set (List.product [lo1..hi1] [lo2..hi2])"
     and "(i', j') \<in> set (List.product [lo1..hi1] [lo2..hi2])"
  then have pos: "1 \<le> i" "1 \<le> j" "1 \<le> i'" "1 \<le> j'"
    using assms by auto
  have big: "1 \<le> mul * k" if "1 \<le> k" for k
  proof -
    have "1 * 1 \<le> mul * k"
      using that assms(1) by (intro mult_mono) simp_all
    then show ?thesis by simp
  qed
  assume "max (mul * i) 1 = max (mul * i') 1" "max (mul * j) 1 = max (mul * j') 1"
  moreover have "max (mul * i) 1 = mul * i" "max (mul * i') 1 = mul * i'"
    "max (mul * j) 1 = mul * j" "max (mul * j') 1 = mul * j'"
    using big pos by (simp_all only: max_absorb1)
  ultimately have "mul * i = mul * i'" "mul * j = mul * j'"
    by simp_all
  with assms(1) show "i = i' \<and> j = j'" by simp
qed

text \<open>
  C7: for a step \<open>mul\<close> other than 0, the generator yields the Points
  \<open>(max (mul * i) 1, max (mul * j) 1)\<close> for the pairs \<open>(i, j)\<close> of the product of the two
  ranges from the ceiling of minimum / step to the floor of maximum / step, in the order of
  the two loops; the list of pairs has no repetition and holds exactly the pairs within
  these bounds; and for a positive step and positive minima no Point is yielded twice. The
  instance below is the grid of step 256 over \<open>[2, 1024] \<times> [2, 1024]\<close>: the 16 Points of
  the multiples 1, 2, 3, 4 in each dimension.
\<close>

theorem generator_grid:
  assumes "mul \<noteq> 0"
  shows "let gmin = \<lceil>real_of_int (num_gangs_min opts) / real_of_int mul\<rceil>;
             gmax = \<lfloor>real_of_int (num_gangs_max opts) / real_of_int mul\<rfloor>;
             vmin = \<lceil>real_of_int (vector_length_min opts) / real_of_int mul\<rceil>;
             vmax = \<lfloor>real_of_int (vector_length_max opts) / real_of_int mul\<rfloor>;
             pairs = List.product [gmin..gmax] [vmin..vmax];
             points = map (\<lambda>(i, j). (max (mul * i) 1, max (mul * j) 1)) pairs
         in generator opts mul = Inr points
            \<and> distinct pairs
            \<and> set pairs = {(i, j). gmin \<le> i \<and> i \<le> gmax \<and> vmin \<le> j \<and> j \<le> vmax}
            \<and> (0 < mul \<and> 0 < num_gangs_min opts \<and> 0 < vector_length_min opts
                 \<longrightarrow> distinct points)"
proof -
  have fl: "\<lfloor>real_of_int a / real_of_int mul\<rfloor> = a div mul" for a
    by (rule floor_divide_of_int_eq)
  have ce: "1 \<le> \<lceil>real_of_int a / real_of_int mul\<rceil>" if "0 < mul" "0 < a" for a
  proof -
    have "0 < real_of_int a / real_of_int mul" using that by simp
    then have "0 < \<lceil>real_of_int a / real_of_int mul\<rceil>" by (simp only: zero_less_ceiling)
    then show ?thesis by simp
  qed
  show ?thesis
    unfolding Let_def
  proof (intro conjI impI)
    show "generator opts mul
          = Inr (map (\<lambda>(i, j). (max (mul * i) 1, max (mul * j) 1))
                  (List.product
                     [\<lceil>real_of_int (num_gangs_min opts) / real_of_int mul\<rceil> ..
                      \<lfloor>real_of_int (num_gangs_max opts) / real_of_int mul\<rfloor>]
                     [\<lceil>real_of_int (vector_length_min opts) / real_of_int mul\<rceil> ..
                      \<lfloor>real_of_int (vector_length_max opts) / real_of_int mul\<rfloor>]))"
      using assms by (simp add: generator_def Let_def gang_loop_product fl)
  next
    show "distinct
            (List.product
               [\<lceil>real_of_int (num_gangs_min opts) / real_of_int mul\<rceil> ..
                \<lfloor>real_of_int (num_gangs_max opts) / real_of_int mul\<rfloor>]
               [\<lceil>real_of_int (vector_length_min opts) / real_of_int mul\<rceil> ..
                \<lfloor>real_of_int (vector_length_max opts) / real_of_int mul\<rfloor>])"
      by (simp add: distinct_product)
  next
    show "set (List.product
               [\<lceil>real_of_int (num_gangs_min opts) / real_of_int mul\<rceil> ..
                \<lfloor>real_of_int (num_gangs_max opts) / real_of_int mul\<rfloor>]
               [\<lceil>real_of_int (vector_length_min opts) / real_of_int mul\<rceil> ..
                \<lfloor>real_of_int (vector_length_max opts) / real_of_int mul\<rfloor>])
          = {(i, j).
               \<lceil>real_of_int (num_gangs_min opts) / real_of_int mul\<rceil> \<le> i
               \<and> i \<le> \<lfloor>real_of_int (num_gangs_max opts) / real_of_int mul\<rfloor>
               \<and> \<lceil>real_of_int (vector_length_min opts) / real_of_int mul\<rceil> \<le> j
               \<and> j \<le> \<lfloor>real_of_int (vector_length_max opts) / real_of_int mul\<rfloor>}"
      by auto
  next
    assume "0 < mul \<and> 0 < num_gangs_min opts \<and> 0 < vector_length_min opts"
    then have "0 < mul" "1 \<le> \<lceil>real_of_int (num_gangs_min opts) / real_of_int mul\<rceil>"
      "1 \<le> \<lceil>real_of_int (vector_length_min opts) / real_of_int mul\<rceil>"
      using ce by simp_all
    from grid_point_inj [OF this] distinct_product [OF distinct_upto distinct_upto]
    show "distinct
            (map (\<lambda>(i, j). (max (mul * i) 1, max (mul * j) 1))
               (List.product
                  [\<lceil>real_of_int (num_gangs_min opts) / real_of_int mul\<rceil> ..
                   \<lfloor>real_of_int (num_gangs_max opts) / real_of_int mul\<rfloor>]
                  [\<lceil>real_of_int (vector_length_min opts) / real_of_int mul\<rceil> ..
                   \<lfloor>real_of_int (vector_length_max opts) / real_of_int mul\<rfloor>]))"
      by (simp only: distinct_map simp_thms)
  qed
qed

theorem generator_grid_witness:
  "(256::int) \<noteq> 0
   \<and> generator (TuningOptions example_regexp) 256
     = Inr [(256, 256), (256, 512), (256, 768), (256, 1024),
            (512, 256), (512, 512), (512, 768), (512, 1024),
            (768, 256), (768, 512), (768, 768), (768, 1024),
            (1024, 256), (1024, 512), (1024, 768), (1024, 1024)]"
proof -
  have "(256::int) \<noteq> 0" by simp
  from generator_grid [OF this, of "TuningOptions example_regexp", unfolded Let_def,
         THEN conjunct1]
  show ?thesis
    by (simp add: TuningOptions_def upto.simps ceiling_one_of_128)
qed

section \<open>The percentile of replay mode\<close>

lemma percentile_loop_ge: "count \<le> percentile_loop d ks t count"
proof (induction ks arbitrary: count)
  case Nil
  show ?case by simp
next
  case (Cons k ks)
  have "count \<le> count + 1" by simp
  also have "\<dots> \<le> percentile_loop d ks t (count + 1)" by (rule Cons.IH)
  finally show ?case by simp
qed

lemma percentile_loop_mono:
  "t1 \<le> t2 \<Longrightarrow> percentile_loop d ks t1 count \<le> percentile_loop d ks t2 count"
proof (induction ks arbitrary: count)
  case Nil
  show ?case by simp
next
  case (Cons k ks)
  show ?case
  proof (cases "csv_time (the (map_of d k)) \<le> t1")
    case True
    with Cons show ?thesis by simp
  next
    case False
    have "count \<le> count + 1" by simp
    also have "\<dots> \<le> percentile_loop d ks t2 (count + 1)" by (rule percentile_loop_ge)
    finally show ?thesis using False by simp
  qed
qed

lemma int_round_mono: "x \<le> y \<Longrightarrow> int_round x \<le> int_round y"
  unfolding int_round_def
  by (auto intro: floor_mono ceiling_mono) linarith+

lemma length_sdata: "length (sdata d) = length d"
  by (simp add: sdata_def)

lemma sdata_example: "sdata example_data = [(1024, 128), (256, 1024), (256, 128)]"
  by (simp add: sdata_def example_data_def)

text \<open>
  C8, as the claim states it, fails: in the example dataset the means 3 and 4 both have
  percentile 100, so the smaller mean has a percentile that is smaller than or equal to the
  larger mean's.
\<close>

theorem percentile_strict_counterexample:
  "(3::real) < 4
   \<and> percentile example_data 3 = Inr 100 \<and> percentile example_data 4 = Inr 100"
  by (simp add: percentile_def Let_def sdata_example)
     (simp add: example_data_def int_round_def)

text \<open>
  C8, amended: for a dataset that is not empty, the percentile never decreases as the mean
  grows: of two means \<open>m1 < m2\<close>, the percentile of \<open>m1\<close> is at most that of \<open>m2\<close>.
\<close>

theorem percentile_monotone:
  assumes "d \<noteq> []" and "m1 < m2"
  shows "\<exists>p1 p2. percentile d m1 = Inr p1 \<and> percentile d m2 = Inr p2 \<and> p1 \<le> p2"
proof -
  let ?n = "length (sdata d)"
  have n: "0 < ?n" using assms(1) by (simp add: length_sdata)
  have "percentile_loop d (sdata d) m1 0 \<le> percentile_loop d (sdata d) m2 0"
    using assms(2) by (intro percentile_loop_mono) simp
  then have "real (percentile_loop d (sdata d) m1 0) / real ?n * 100
             \<le> real (percentile_loop d (sdata d) m2 0) / real ?n * 100"
    using n by (simp add: divide_right_mono)
  then have "int_round (real (percentile_loop d (sdata d) m1 0) / real ?n * 100)
             \<le> int_round (real (percentile_loop d (sdata d) m2 0) / real ?n * 100)"
    by (rule int_round_mono)
  with n show ?thesis by (simp add: percentile_def Let_def)
qed

theorem percentile_monotone_witness:
  "example_data \<noteq> [] \<and> (1::real) < 2
   \<and> percentile example_data 1 = Inr 33 \<and> percentile example_data 2 = Inr 67
   \<and> (33::int) \<le> 67"
proof -
  have v: "percentile example_data 1 = Inr 33" "percentile example_data 2 = Inr 67"
    by (simp_all add: percentile_def Let_def sdata_example)
       (simp_all add: example_data_def int_round_def)
  have "example_data \<noteq> []" by (simp add: example_data_def)
  moreover have "(1::real) < 2" by simp
  ultimately have "\<exists>p1 p2. percentile example_data 1 = Inr p1
                     \<and> percentile example_data 2 = Inr p2 \<and> p1 \<le> p2"
    by (rule percentile_monotone)
  with v show ?thesis by (simp add: example_data_def)
qed

section \<open>The result sink and the bounds check\<close>

text \<open>
  C10: for a Point that the bounds check rejects, the objective function returns the
  Result 'Point out of range' to its caller and \<^verbatim>\<open>output_writer.add\<close> receives nothing;
  for a Point within the bounds the objective function is \<^verbatim>\<open>run_test\<close> (the live function
  or the replay look-up), so only these two hand Results to the sink.
\<close>

theorem objective_sink:
  "(fst x < num_gangs_min opts \<or> num_gangs_max opts < fst x
      \<or> snd x < vector_length_min opts \<or> vector_length_max opts < snd x
    \<longrightarrow> fst (objective rt opts x w)
          = Inr (TestResult x None None (Some ''Point out of range''))
        \<and> sink_results (snd (objective rt opts x w)) = sink_results w)
   \<and> (num_gangs_min opts \<le> fst x \<and> fst x \<le> num_gangs_max opts
        \<and> vector_length_min opts \<le> snd x \<and> snd x \<le> vector_length_max opts
      \<longrightarrow> objective rt opts x w = rt x (repetitions opts) w)"
  unfolding objective_def Let_def by auto

theorem objective_sink_witness:
  "vector_length_max (TuningOptions example_regexp) < snd (256, 2048)
   \<and> fst (objective (gen_testing_function (example_platform all_succeed) example_data)
            (TuningOptions example_regexp) (256, 2048) example_world)
     = Inr (TestResult (256, 2048) None None (Some ''Point out of range''))
   \<and> sink_results
       (snd (objective (gen_testing_function (example_platform all_succeed) example_data)
               (TuningOptions example_regexp) (256, 2048) example_world))
     = []
   \<and> sink_results
       (snd (objective (gen_testing_function (example_platform all_succeed) example_data)
               (TuningOptions example_regexp) (256, 128) example_world))
     = [TestResult (256, 128) (Some 3) (Some 0) None]"
  using objective_sink [of "(256, 2048)" "TuningOptions example_regexp"
          "gen_testing_function (example_platform all_succeed) example_data" example_world]
        objective_sink [of "(256, 128)" "TuningOptions example_regexp"
          "gen_testing_function (example_platform all_succeed) example_data" example_world]
  by (simp add: TuningOptions_def sink_results_def example_world_def
        gen_testing_function_def example_data_def Let_def output_writer_add_def)

section \<open>Replay mode\<close>

text \<open>
  What the replay look-up returns: the error 'not in CSV data' for a Point that the dataset
  lacks, the recorded message as an error for a row whose message is a string, the empty
  string included, and the recorded time and deviation only for a row whose message is
  \<^verbatim>\<open>None\<close>.
\<close>

lemma replay_lookup:
  "fst (gen_testing_function P d x reps w)
   = Inr (case map_of d x of
            None \<Rightarrow> TestResult x None None (Some (str_point P x @ '' not in CSV data''))
          | Some values \<Rightarrow>
              (case csv_error_msg values of
                 Some msg \<Rightarrow> TestResult x None None (Some msg)
               | None \<Rightarrow> TestResult x (Some (csv_time values)) (Some (csv_stdev values)) None))"
  by (simp add: gen_testing_function_def Let_def)

text \<open>
  C5, at the row \<^verbatim>\<open>256,1024,2,0.25,\<close> of the example dataset, whose error message is
  empty: the look-up returns an error Result with the empty message and without the recorded
  mean 2 and deviation 0.25, where the claim promises a success that carries them.
\<close>

theorem replay_empty_error_message:
  "fst (gen_testing_function (example_platform all_succeed) example_data (256, 1024) 10
          example_world)
   = Inr (TestResult (256, 1024) None None (Some []))"
  by (simp add: gen_testing_function_def example_data_def Let_def)

section \<open>The heuristic\<close>

text \<open>
  C6: when the three probes return Results and the repetition count is 1 or one of the
  three standard deviations is exactly 0, \<^verbatim>\<open>run_heuristic\<close> returns \<open>(True, True)\<close> and the
  options as they were, whatever the means are and whatever the significance test would say.
\<close>

theorem run_heuristic_degenerate:
  assumes "obj (256, 128) w = (Inr i, w1)"
      and "obj (1024, 128) w1 = (Inr g, w2)"
      and "obj (256, 1024) w2 = (Inr v, w3)"
      and "repetitions opts = 1 \<or> stdev i = Some 0 \<or> stdev g = Some 0 \<or> stdev v = Some 0"
  shows "run_heuristic P obj opts w = (Inr (True, True), opts, w3)"
  using assms unfolding run_heuristic_def Let_def by auto

lemma replay_probe:
  "objective (gen_testing_function P example_data) (TuningOptions re) x w
   = (if fst x < 2 \<or> 1024 < fst x \<or> snd x < 2 \<or> 1024 < snd x
      then (Inr (TestResult x None None (Some ''Point out of range'')), w)
      else gen_testing_function P example_data x 10 w)"
  by (auto simp: objective_def TuningOptions_def Let_def)

theorem run_heuristic_degenerate_witness:
  "stdev (TestResult (256, 128) (Some 3) (Some 0) None) = Some 0
   \<and> run_heuristic (example_platform all_succeed)
       (objective (gen_testing_function (example_platform all_succeed) example_data)
          (TuningOptions example_regexp))
       (TuningOptions example_regexp) example_world
     = (Inr (True, True), TuningOptions example_regexp,
        \<lparr>os_environ = Map.empty,
         events = [Add (TestResult (256, 128) (Some 3) (Some 0) None),
                   Add (TestResult (1024, 128) (Some 1) (Some (1 / 2)) None),
                   Add (TestResult (256, 1024) None None (Some []))]\<rparr>)"
proof -
  let ?P = "example_platform all_succeed"
  let ?obj = "objective (gen_testing_function ?P example_data) (TuningOptions example_regexp)"
  let ?i = "TestResult (256, 128) (Some 3) (Some 0) None"
  let ?g = "TestResult (1024, 128) (Some 1) (Some (1 / 2)) None"
  let ?v = "TestResult (256, 1024) None None (Some [])"
  let ?w1 = "\<lparr>os_environ = Map.empty, events = [Add ?i]\<rparr>"
  let ?w2 = "\<lparr>os_environ = Map.empty, events = [Add ?i, Add ?g]\<rparr>"
  let ?w3 = "\<lparr>os_environ = Map.empty, events = [Add ?i, Add ?g, Add ?v]\<rparr>"
  have 1: "?obj (256, 128) example_world = (Inr ?i, ?w1)"
    unfolding replay_probe
    by (simp add: gen_testing_function_def example_data_def Let_def
          output_writer_add_def example_world_def)
  have 2: "?obj (1024, 128) ?w1 = (Inr ?g, ?w2)"
    unfolding replay_probe
    by (simp add: gen_testing_function_def example_data_def Let_def
          output_writer_add_def)
  have 3: "?obj (256, 1024) ?w2 = (Inr ?v, ?w3)"
    unfolding replay_probe
    by (simp add: gen_testing_function_def example_data_def Let_def
          output_writer_add_def)
  have 4: "stdev ?i = Some 0" by (simp add: TestResult_def)
  then have "repetitions (TuningOptions example_regexp) = 1 \<or> stdev ?i = Some 0
             \<or> stdev ?g = Some 0 \<or> stdev ?v = Some 0" by simp
  from run_heuristic_degenerate [OF 1 2 3 this, of ?P] 4 show ?thesis by simp
qed

section \<open>The environment of the compile command\<close>

lemma str_int_256: "str_int 256 = ''256''"
  by (simp add: str_int_def)

lemma str_int_128: "str_int 128 = ''128''"
  by (simp add: str_int_def)

text \<open>
  The environment of the compile command takes a variable from the process environment
  when it is bound there, and only otherwise from the Point.
\<close>

lemma compile_env_lookup:
  "compile_env x w k
   = (case os_environ w k of
        Some v \<Rightarrow> Some v
      | None \<Rightarrow>
          if k = ''NUM_GANGS'' then Some (str_int (fst x))
          else if k = ''VECTOR_LENGTH'' then Some (str_int (snd x))
          else None)"
  by (simp add: compile_env_def case_prod_beta map_add_def split: option.splits)

text \<open>
  C9, in a process environment that already binds \<^verbatim>\<open>NUM_GANGS\<close> to 7: for the Point
  (256, 128) the compiler is started with \<^verbatim>\<open>NUM_GANGS\<close> bound to 7, not to 256, since
  \<^verbatim>\<open>env.update(os.environ)\<close> writes the process environment over the two variables just
  set. The executable is started without an environment argument.
\<close>

theorem compile_env_overridden:
  "map (\<lambda>c. (command c, map_option (\<lambda>e. (e ''NUM_GANGS'', e ''VECTOR_LENGTH'')) (env c)))
     (calls (snd (gen_tuning_function (example_platform all_succeed)
                    (TuningOptions example_regexp) (256, 128) 1 example_world_env)))
   = [(PGCC_COMPILE, Some (Some ''7'', Some ''128'')), (''./a.out'', None)]
   \<and> str_int 256 \<noteq> ''7''"
  by (simp add: gen_tuning_function_def call_command_def ncalls_def example_platform_def
      TuningOptions_def example_world_env_def all_succeed_def read_time_def example_regexp_def
      output_writer_log_run_def output_writer_add_def calls_def str_int_256 str_int_128
      compile_env_def map_add_def Let_def)

section \<open>The repetition loop and the aggregation\<close>

lemma events_call_command [simp]:
  "events (snd (call_command P c w)) = events w @ [Call c]"
  by (simp add: call_command_def)

lemma fst_call_command [simp]:
  "fst (call_command P c w) = respond P (ncalls w) c"
  by (simp add: call_command_def)

lemma events_log_run [simp]:
  "events (output_writer_log_run x t w) = events w @ [LogRun x t]"
  by (simp add: output_writer_log_run_def)

lemma events_add [simp]:
  "events (output_writer_add r w) = events w @ [Add r]"
  by (simp add: output_writer_add_def)

lemma ncalls_call_command [simp]:
  "ncalls (snd (call_command P c w)) = Suc (ncalls w)"
  by (simp add: ncalls_def)

lemma ncalls_log_run [simp]: "ncalls (output_writer_log_run x t w) = ncalls w"
  by (simp add: ncalls_def)

lemma raw_runs_call_command [simp]: "raw_runs (snd (call_command P c w)) = raw_runs w"
  by (simp add: raw_runs_def)

lemma raw_runs_log_run [simp]:
  "raw_runs (output_writer_log_run x t w) = raw_runs w @ [(x, t)]"
  by (simp add: raw_runs_def)

lemma raw_runs_add [simp]: "raw_runs (output_writer_add r w) = raw_runs w"
  by (simp add: raw_runs_def)

text \<open>One pass through the body of the loop.\<close>

lemma run_repetitions_Suc:
  "run_repetitions P opts x (Suc k) results w =
     (let r = respond P (ncalls w) \<lparr>command = executable opts, env = None\<rparr>;
          w1 = snd (call_command P \<lparr>command = executable opts, env = None\<rparr> w)
      in if snd r \<noteq> 0 \<and> \<not> ignore_exit opts then
           (Inr (Some (TestResult x None None (Some ''Executable failed'')), results), w1)
         else
           (case read_time P opts (fst r) of
              Missing msg \<Rightarrow> (Inr (Some (TestResult x None None (Some msg)), results), w1)
            | Invalid e \<Rightarrow> (Inl e, w1)
            | Timing t \<Rightarrow>
                run_repetitions P opts x k (results @ [t]) (output_writer_log_run x t w1)))"
  by (simp add: call_command_def Let_def split: prod.splits)

lemma run_repetitions_extends:
  "\<exists>es. events (snd (run_repetitions P opts x k results w)) = events w @ es"
proof (induction k arbitrary: results w)
  case 0
  show ?case by simp
next
  case (Suc k)
  let ?w1 = "snd (call_command P \<lparr>command = executable opts, env = None\<rparr> w)"
  show ?case
  proof (cases "read_time P opts (fst (respond P (ncalls w) \<lparr>command = executable opts, env = None\<rparr>))")
    case (Timing t)
    obtain es where
      "events (snd (run_repetitions P opts x k (results @ [t]) (output_writer_log_run x t ?w1)))
       = events (output_writer_log_run x t ?w1) @ es"
      using Suc.IH by blast
    with Timing show ?thesis
      by (simp add: run_repetitions_Suc Let_def del: run_repetitions.simps)
  qed (simp_all add: run_repetitions_Suc Let_def del: run_repetitions.simps)
qed

lemma run_repetitions_finished:
  "fst (run_repetitions P opts x k results w) = Inr (None, ts)
   \<Longrightarrow> \<exists>new. ts = results @ new \<and> length new = k
        \<and> raw_runs (snd (run_repetitions P opts x k results w))
          = raw_runs w @ map (Pair x) new"
proof (induction k arbitrary: results w)
  case 0
  then show ?case by simp
next
  case (Suc k)
  let ?r = "respond P (ncalls w) \<lparr>command = executable opts, env = None\<rparr>"
  let ?w1 = "snd (call_command P \<lparr>command = executable opts, env = None\<rparr> w)"
  from Suc.prems obtain t where
    t: "read_time P opts (fst ?r) = Timing t"
    and rest: "fst (run_repetitions P opts x k (results @ [t]) (output_writer_log_run x t ?w1))
               = Inr (None, ts)"
    and step: "run_repetitions P opts x (Suc k) results w
               = run_repetitions P opts x k (results @ [t]) (output_writer_log_run x t ?w1)"
    by (auto simp: run_repetitions_Suc Let_def simp del: run_repetitions.simps
          split: if_splits timing.splits)
  from Suc.IH [OF rest] obtain new where
    new: "ts = (results @ [t]) @ new" "length new = k"
      "raw_runs (snd (run_repetitions P opts x k (results @ [t]) (output_writer_log_run x t ?w1)))
       = raw_runs (output_writer_log_run x t ?w1) @ map (Pair x) new"
    by blast
  show ?case
  proof (intro exI conjI)
    show "ts = results @ (t # new)" using new(1) by simp
    show "length (t # new) = Suc k" using new(2) by simp
    show "raw_runs (snd (run_repetitions P opts x (Suc k) results w))
          = raw_runs w @ map (Pair x) (t # new)"
      unfolding step new(3) by simp
  qed
qed

text \<open>The example platform and options, evaluated.\<close>

lemma example_compile_env: "compile_env x example_world
   = [''NUM_GANGS'' \<mapsto> str_int (fst x), ''VECTOR_LENGTH'' \<mapsto> str_int (snd x)]"
  by (simp add: compile_env_def example_world_def case_prod_beta)

lemma example_format:
  "format_command (example_platform script) (compile_command (TuningOptions re))
     (source (TuningOptions re)) g v = Inr PGCC_COMPILE"
  by (simp add: example_platform_def TuningOptions_def)

lemma example_read_time:
  "read_time (example_platform script) (TuningOptions example_regexp) ''time: 1'' = Timing 1"
  "read_time (example_platform script) (TuningOptions example_regexp) ''time: 3'' = Timing 3"
  by (simp_all add: read_time_def example_platform_def TuningOptions_def example_regexp_def)

lemma example_respond: "respond (example_platform script) k c = script k"
  by (simp add: example_platform_def)

lemma example_options:
  "executable (TuningOptions re) = ''./a.out''" "ignore_exit (TuningOptions re) = False"
  by (simp_all add: TuningOptions_def)

lemma ncalls_example_world: "ncalls example_world = 0"
  by (simp add: ncalls_def example_world_def)

lemma all_succeed_values:
  "all_succeed 0 = (''time: 3'', 0)" "all_succeed (Suc 0) = (''time: 1'', 0)"
  "all_succeed (Suc (Suc 0)) = (''time: 3'', 0)"
  by (simp_all add: all_succeed_def)

lemma example_loop:
  "fst (run_repetitions (example_platform all_succeed) (TuningOptions example_regexp) (256, 128)
          (nat 0) []
          (snd (call_command (example_platform all_succeed)
                  \<lparr>command = PGCC_COMPILE, env = Some (compile_env (256, 128) example_world)\<rparr>
                  example_world)))
   = Inr (None, [])"
  "fst (run_repetitions (example_platform all_succeed) (TuningOptions example_regexp) (256, 128)
          (nat 1) []
          (snd (call_command (example_platform all_succeed)
                  \<lparr>command = PGCC_COMPILE, env = Some (compile_env (256, 128) example_world)\<rparr>
                  example_world)))
   = Inr (None, [1])"
  "fst (run_repetitions (example_platform all_succeed) (TuningOptions example_regexp) (256, 128)
          (nat 2) []
          (snd (call_command (example_platform all_succeed)
                  \<lparr>command = PGCC_COMPILE, env = Some (compile_env (256, 128) example_world)\<rparr>
                  example_world)))
   = Inr (None, [1, 3])"
  by (simp_all add: numeral_2_eq_2 run_repetitions_Suc Let_def example_respond example_options
        example_read_time ncalls_example_world all_succeed_values
        del: run_repetitions.simps(2))

text \<open>
  C3: when the compile command exits with 0 and the loop runs to its end with the list
  \<open>ts\<close> of timings, then \<open>ts\<close> has one timing per repetition, these are the raw timings
  reported during the evaluation, and the Result is: the error 'No points tested' for no
  timing; otherwise the mean \<open>sum ts / n\<close> with the deviation 0 for \<open>n = 1\<close> and
  \<open>sqrt (sum (t - mean)\<^sup>2 / (n - 1))\<close> for \<open>n \<ge> 2\<close>. Floats are idealised as reals.
\<close>

theorem aggregation:
  assumes fmt: "format_command P (compile_command opts) (source opts) (fst x) (snd x) = Inr cmd"
      and compiled:
        "snd (respond P (ncalls w) \<lparr>command = cmd, env = Some (compile_env x w)\<rparr>) = 0"
      and finished:
        "fst (run_repetitions P opts x (nat reps) []
                (snd (call_command P \<lparr>command = cmd, env = Some (compile_env x w)\<rparr> w)))
         = Inr (None, ts)"
  shows "length ts = nat reps
         \<and> raw_runs (snd (gen_tuning_function P opts x reps w)) = raw_runs w @ map (Pair x) ts
         \<and> (ts = [] \<longrightarrow>
              fst (gen_tuning_function P opts x reps w)
              = Inr (TestResult x None None (Some ''No points tested'')))
         \<and> (ts \<noteq> [] \<longrightarrow>
              (\<exists>sd. fst (gen_tuning_function P opts x reps w)
                     = Inr (TestResult x (Some (sum_list ts / real (length ts))) (Some sd) None)
                   \<and> (length ts = 1 \<longrightarrow> sd = 0)
                   \<and> (2 \<le> length ts \<longrightarrow>
                        sd = sqrt (sum_list (map (\<lambda>t. (t - sum_list ts / real (length ts))\<^sup>2) ts)
                                   / real (length ts - 1)))))"
proof -
  let ?w1 = "snd (call_command P \<lparr>command = cmd, env = Some (compile_env x w)\<rparr> w)"
  let ?loop = "run_repetitions P opts x (nat reps) [] ?w1"
  obtain w2 where loop: "?loop = (Inr (None, ts), w2)"
    using finished by (cases ?loop) simp
  from run_repetitions_finished [OF finished] loop
  have len: "length ts = nat reps" and runs: "raw_runs w2 = raw_runs w @ map (Pair x) ts"
    by auto
  have gen: "gen_tuning_function P opts x reps w =
      (let result =
         (if ts = [] then TestResult x None None (Some ''No points tested'')
          else TestResult x (Some (sum_list ts / real (length ts)))
                 (Some (if length ts = 1 then 0
                        else sqrt (sum_list (map (\<lambda>t. (t - sum_list ts / real (length ts))\<^sup>2) ts)
                                   / real (length ts - 1)))) None)
       in (Inr result, output_writer_add result w2))"
    using fmt compiled loop
    by (simp add: gen_tuning_function_def Let_def case_prod_beta)
  show ?thesis
  proof (intro conjI impI)
    show "length ts = nat reps" by (rule len)
    show "raw_runs (snd (gen_tuning_function P opts x reps w)) = raw_runs w @ map (Pair x) ts"
      unfolding gen using runs by (simp add: Let_def)
  next
    assume "ts = []"
    then show "fst (gen_tuning_function P opts x reps w)
               = Inr (TestResult x None None (Some ''No points tested''))"
      unfolding gen by (simp add: Let_def)
  next
    assume "ts \<noteq> []"
    then show "\<exists>sd. fst (gen_tuning_function P opts x reps w)
                    = Inr (TestResult x (Some (sum_list ts / real (length ts))) (Some sd) None)
                  \<and> (length ts = 1 \<longrightarrow> sd = 0)
                  \<and> (2 \<le> length ts \<longrightarrow>
                       sd = sqrt (sum_list (map (\<lambda>t. (t - sum_list ts / real (length ts))\<^sup>2) ts)
                                  / real (length ts - 1)))"
      unfolding gen by (simp add: Let_def TestResult_def)
  qed
qed

theorem aggregation_witness:
  "fst (gen_tuning_function (example_platform all_succeed) (TuningOptions example_regexp)
          (256, 128) 0 example_world)
   = Inr (TestResult (256, 128) None None (Some ''No points tested''))
   \<and> fst (gen_tuning_function (example_platform all_succeed) (TuningOptions example_regexp)
            (256, 128) 1 example_world)
     = Inr (TestResult (256, 128) (Some 1) (Some 0) None)
   \<and> fst (gen_tuning_function (example_platform all_succeed) (TuningOptions example_regexp)
            (256, 128) 2 example_world)
     = Inr (TestResult (256, 128) (Some 2) (Some (sqrt 2)) None)
   \<and> raw_runs (snd (gen_tuning_function (example_platform all_succeed)
                      (TuningOptions example_regexp) (256, 128) 2 example_world))
     = [((256, 128), 1), ((256, 128), 3)]"
proof -
  let ?P = "example_platform all_succeed"
  let ?opts = "TuningOptions example_regexp"
  have fmt: "format_command ?P (compile_command ?opts) (source ?opts)
               (fst (256, 128)) (snd (256, 128)) = Inr PGCC_COMPILE"
    by (rule example_format)
  have compiled: "snd (respond ?P (ncalls example_world)
                    \<lparr>command = PGCC_COMPILE, env = Some (compile_env (256, 128) example_world)\<rparr>) = 0"
    by (simp add: example_respond ncalls_example_world all_succeed_values)
  from aggregation [OF fmt compiled example_loop(1)]
       aggregation [OF fmt compiled example_loop(2)]
       aggregation [OF fmt compiled example_loop(3)]
  show ?thesis
    by (auto simp: raw_runs_def example_world_def TestResult_def power2_eq_square)
qed

section \<open>A failing executable\<close>

lemma run_repetitions_prefix:
  assumes "\<forall>i<length ts.
             snd (respond P (ncalls w + i) \<lparr>command = executable opts, env = None\<rparr>) = 0
             \<and> read_time P opts
                  (fst (respond P (ncalls w + i) \<lparr>command = executable opts, env = None\<rparr>))
               = Timing (ts ! i)"
  shows "run_repetitions P opts x (length ts + m) results w
         = run_repetitions P opts x m (results @ ts)
             (w\<lparr>events := events w
                  @ concat (map (\<lambda>t. [Call \<lparr>command = executable opts, env = None\<rparr>,
                                       LogRun x t]) ts)\<rparr>)"
  using assms
proof (induction ts arbitrary: results w)
  case Nil
  show ?case by simp
next
  case (Cons t ts)
  let ?exec = "\<lparr>command = executable opts, env = None\<rparr>"
  let ?w1 = "output_writer_log_run x t (snd (call_command P ?exec w))"
  from Cons.prems have first:
    "snd (respond P (ncalls w) ?exec) = 0"
    "read_time P opts (fst (respond P (ncalls w) ?exec)) = Timing t"
    by force+
  have rest: "\<forall>i<length ts.
                snd (respond P (ncalls ?w1 + i) ?exec) = 0
                \<and> read_time P opts (fst (respond P (ncalls ?w1 + i) ?exec)) = Timing (ts ! i)"
  proof (intro allI impI)
    fix i assume "i < length ts"
    then have "Suc i < length (t # ts)" by simp
    from Cons.prems [rule_format, OF this] show
      "snd (respond P (ncalls ?w1 + i) ?exec) = 0
       \<and> read_time P opts (fst (respond P (ncalls ?w1 + i) ?exec)) = Timing (ts ! i)"
      by simp
  qed
  have w1: "?w1 = w\<lparr>events := events w @ [Call ?exec, LogRun x t]\<rparr>"
    by (simp add: call_command_def output_writer_log_run_def)
  have "run_repetitions P opts x (length (t # ts) + m) results w
        = run_repetitions P opts x (length ts + m) (results @ [t]) ?w1"
    using first by (simp add: run_repetitions_Suc Let_def del: run_repetitions.simps)
  also have "\<dots> = run_repetitions P opts x m ((results @ [t]) @ ts)
                     (?w1\<lparr>events := events ?w1
                        @ concat (map (\<lambda>t. [Call ?exec, LogRun x t]) ts)\<rparr>)"
    by (rule Cons.IH [OF rest])
  finally show ?case by (simp add: w1)
qed

lemma count_calls_runs:
  "length (filter is_call (concat (map (\<lambda>t. [Call e, LogRun x t]) ts))) = length ts"
  by (induction ts) simp_all

lemma run_repetitions_fails:
  assumes "snd (respond P (ncalls w) \<lparr>command = executable opts, env = None\<rparr>) \<noteq> 0"
      and "\<not> ignore_exit opts"
  shows "run_repetitions P opts x (Suc m) results w
         = (Inr (Some (TestResult x None None (Some ''Executable failed'')), results),
            snd (call_command P \<lparr>command = executable opts, env = None\<rparr> w))"
  using assms by (simp add: run_repetitions_Suc Let_def del: run_repetitions.simps)

lemma third_fails_values:
  "third_fails 0 = (''time: 1'', 0)" "third_fails (Suc 0) = (''time: 1'', 0)"
  "third_fails (Suc (Suc 0)) = ([], 1)"
  by (simp_all add: third_fails_def)

text \<open>
  C4: with \<^verbatim>\<open>ignore_exit\<close> off, let the compile command succeed, let the first
  \<open>length ts\<close> runs exit with 0 and print the timings \<open>ts\<close>, and let the next run, which
  is repetition \<open>k = length ts + 1\<close> of \<open>n = reps\<close>, exit with another code. Then the
  Result is the error 'Executable failed', which has no mean, and the events of the
  evaluation are, in this order: the compile command; for each timing the run and its
  report to \<^verbatim>\<open>log_run\<close>; the failing run; the Result handed to the sink. So the timings
  were reported before the failure, and no run follows the failing one. The claim's
  \<open>k \<ge> 2\<close> is the case \<open>ts \<noteq> []\<close>.
\<close>

theorem executable_failure:
  assumes fmt: "format_command P (compile_command opts) (source opts) (fst x) (snd x) = Inr cmd"
      and compiled:
        "snd (respond P (ncalls w) \<lparr>command = cmd, env = Some (compile_env x w)\<rparr>) = 0"
      and fatal: "\<not> ignore_exit opts"
      and succeeded:
        "\<forall>i<length ts.
           snd (respond P (ncalls w + 1 + i) \<lparr>command = executable opts, env = None\<rparr>) = 0
           \<and> read_time P opts
                (fst (respond P (ncalls w + 1 + i) \<lparr>command = executable opts, env = None\<rparr>))
             = Timing (ts ! i)"
      and failed:
        "snd (respond P (ncalls w + 1 + length ts) \<lparr>command = executable opts, env = None\<rparr>)
         \<noteq> 0"
      and more: "length ts < nat reps"
  shows "fst (gen_tuning_function P opts x reps w)
         = Inr (TestResult x None None (Some ''Executable failed''))
         \<and> events (snd (gen_tuning_function P opts x reps w))
           = events w
             @ [Call \<lparr>command = cmd, env = Some (compile_env x w)\<rparr>]
             @ concat (map (\<lambda>t. [Call \<lparr>command = executable opts, env = None\<rparr>, LogRun x t]) ts)
             @ [Call \<lparr>command = executable opts, env = None\<rparr>,
                Add (TestResult x None None (Some ''Executable failed''))]
         \<and> average (TestResult x None None (Some ''Executable failed'')) = None"
proof -
  let ?exec = "\<lparr>command = executable opts, env = None\<rparr>"
  let ?comp = "\<lparr>command = cmd, env = Some (compile_env x w)\<rparr>"
  let ?w1 = "snd (call_command P ?comp w)"
  let ?w2 = "?w1\<lparr>events := events ?w1 @ concat (map (\<lambda>t. [Call ?exec, LogRun x t]) ts)\<rparr>"
  let ?r = "TestResult x None None (Some ''Executable failed'')"
  define m where "m = nat reps - Suc (length ts)"
  have m: "nat reps = length ts + Suc m"
    using more by (simp add: m_def)
  have n2: "ncalls ?w2 = ncalls w + 1 + length ts"
    by (simp add: ncalls_def count_calls_runs)
  have pre: "\<forall>i<length ts.
               snd (respond P (ncalls ?w1 + i) ?exec) = 0
               \<and> read_time P opts (fst (respond P (ncalls ?w1 + i) ?exec)) = Timing (ts ! i)"
    using succeeded by simp
  have "run_repetitions P opts x (nat reps) [] ?w1
        = run_repetitions P opts x (Suc m) ([] @ ts) ?w2"
    unfolding m by (rule run_repetitions_prefix [OF pre])
  also have "\<dots> = (Inr (Some ?r, ts), snd (call_command P ?exec ?w2))"
  proof -
    have "snd (respond P (ncalls ?w2) ?exec) \<noteq> 0"
      unfolding n2 by (rule failed)
    from run_repetitions_fails [OF this fatal] show ?thesis by simp
  qed
  finally have loop: "run_repetitions P opts x (nat reps) [] ?w1
                      = (Inr (Some ?r, ts), snd (call_command P ?exec ?w2))" .
  have gen: "gen_tuning_function P opts x reps w
             = (Inr ?r, output_writer_add ?r (snd (call_command P ?exec ?w2)))"
    using fmt compiled loop by (simp add: gen_tuning_function_def Let_def case_prod_beta)
  show ?thesis
    unfolding gen by (simp add: TestResult_def)
qed

theorem executable_failure_witness:
  "fst (gen_tuning_function (example_platform third_fails) (TuningOptions example_regexp)
          (256, 128) 5 example_world)
   = Inr (TestResult (256, 128) None None (Some ''Executable failed''))
   \<and> map command
         (calls (snd (gen_tuning_function (example_platform third_fails)
                        (TuningOptions example_regexp) (256, 128) 5 example_world)))
     = [PGCC_COMPILE, ''./a.out'', ''./a.out'']
   \<and> raw_runs (snd (gen_tuning_function (example_platform third_fails)
                      (TuningOptions example_regexp) (256, 128) 5 example_world))
     = [((256, 128), 1)]
   \<and> sink_results (snd (gen_tuning_function (example_platform third_fails)
                          (TuningOptions example_regexp) (256, 128) 5 example_world))
     = [TestResult (256, 128) None None (Some ''Executable failed'')]"
proof -
  let ?P = "example_platform third_fails"
  let ?opts = "TuningOptions example_regexp"
  let ?exec = "\<lparr>command = executable ?opts, env = None\<rparr>"
  have fmt: "format_command ?P (compile_command ?opts) (source ?opts)
               (fst (256, 128)) (snd (256, 128)) = Inr PGCC_COMPILE"
    by (rule example_format)
  have compiled: "snd (respond ?P (ncalls example_world)
                    \<lparr>command = PGCC_COMPILE, env = Some (compile_env (256, 128) example_world)\<rparr>) = 0"
    by (simp add: example_respond ncalls_example_world third_fails_values)
  have fatal: "\<not> ignore_exit ?opts"
    by (simp add: example_options)
  have succeeded: "\<forall>i<length [1::real].
      snd (respond ?P (ncalls example_world + 1 + i) ?exec) = 0
      \<and> read_time ?P ?opts (fst (respond ?P (ncalls example_world + 1 + i) ?exec))
        = Timing ([1] ! i)"
    by (simp add: example_respond ncalls_example_world third_fails_values example_read_time)
  have failed: "snd (respond ?P (ncalls example_world + 1 + length [1::real]) ?exec) \<noteq> 0"
    by (simp add: example_respond ncalls_example_world third_fails_values)
  have more: "length [1::real] < nat 5" by simp
  from executable_failure [OF fmt compiled fatal succeeded failed more]
  show ?thesis
    by (simp add: calls_def raw_runs_def sink_results_def example_world_def example_options)
qed

section \<open>Repeated requests\<close>

lemma gen_tuning_function_starts_compiler:
  assumes "format_command P (compile_command opts) (source opts) (fst x) (snd x) = Inr cmd"
  shows "\<exists>es. events (snd (gen_tuning_function P opts x reps w))
              = events w @ Call \<lparr>command = cmd, env = Some (compile_env x w)\<rparr> # es"
proof -
  let ?comp = "\<lparr>command = cmd, env = Some (compile_env x w)\<rparr>"
  let ?w1 = "snd (call_command P ?comp w)"
  let ?loop = "run_repetitions P opts x (nat reps) [] ?w1"
  obtain es where es: "events (snd ?loop) = events ?w1 @ es"
    using run_repetitions_extends by blast
  show ?thesis
  proof (cases "snd (respond P (ncalls w) ?comp) = 0")
    case False
    with assms show ?thesis
      by (simp add: gen_tuning_function_def Let_def case_prod_beta)
  next
    case True
    show ?thesis
    proof (cases "fst ?loop")
      case (Inl e)
      with assms True es show ?thesis
        by (simp add: gen_tuning_function_def Let_def case_prod_beta)
    next
      case (Inr p)
      with assms True es show ?thesis
        by (simp add: gen_tuning_function_def Let_def case_prod_beta)
    qed
  qed
qed

lemma calls_add [simp]: "calls (output_writer_add r w) = calls w"
  by (simp add: calls_def)

lemma example_objective_live:
  "objective (gen_tuning_function P ((TuningOptions re)\<lparr>repetitions := 1\<rparr>))
     ((TuningOptions re)\<lparr>repetitions := 1\<rparr>) (256, 128) w
   = gen_tuning_function P ((TuningOptions re)\<lparr>repetitions := 1\<rparr>) (256, 128) 1 w"
  by (simp add: objective_def TuningOptions_def Let_def)

lemma first_request:
  "gen_tuning_function (example_platform third_fails)
     ((TuningOptions example_regexp)\<lparr>repetitions := 1\<rparr>) (256, 128) 1 example_world
   = (Inr (TestResult (256, 128) (Some 1) (Some 0) None),
      \<lparr>os_environ = Map.empty,
       events = [Call \<lparr>command = PGCC_COMPILE,
                       env = Some (compile_env (256, 128) example_world)\<rparr>,
                 Call \<lparr>command = ''./a.out'', env = None\<rparr>,
                 LogRun (256, 128) 1,
                 Add (TestResult (256, 128) (Some 1) (Some 0) None)]\<rparr>)"
  by (simp add: gen_tuning_function_def Let_def example_platform_def TuningOptions_def
        call_command_def ncalls_def example_world_def third_fails_def read_time_def
        example_regexp_def output_writer_log_run_def output_writer_add_def compile_env_def)

lemma second_request:
  "gen_tuning_function (example_platform third_fails)
     ((TuningOptions example_regexp)\<lparr>repetitions := 1\<rparr>) (256, 128) 1
     \<lparr>os_environ = Map.empty,
       events = [Call \<lparr>command = PGCC_COMPILE,
                       env = Some (compile_env (256, 128) example_world)\<rparr>,
                 Call \<lparr>command = ''./a.out'', env = None\<rparr>,
                 LogRun (256, 128) 1,
                 Add (TestResult (256, 128) (Some 1) (Some 0) None)]\<rparr>
   = (Inr (TestResult (256, 128) None None (Some ''Compile command failed'')),
      \<lparr>os_environ = Map.empty,
       events = [Call \<lparr>command = PGCC_COMPILE,
                       env = Some (compile_env (256, 128) example_world)\<rparr>,
                 Call \<lparr>command = ''./a.out'', env = None\<rparr>,
                 LogRun (256, 128) 1,
                 Add (TestResult (256, 128) (Some 1) (Some 0) None),
                 Call \<lparr>command = PGCC_COMPILE,
                       env = Some (compile_env (256, 128) example_world)\<rparr>,
                 Add (TestResult (256, 128) None None (Some ''Compile command failed''))]\<rparr>)"
  by (simp add: gen_tuning_function_def Let_def example_platform_def TuningOptions_def
        call_command_def ncalls_def example_world_def third_fails_def
        output_writer_add_def compile_env_def)

text \<open>
  C2, as the claim states it, fails: the objective function and the live function keep no
  cache. On the example platform, whose third process fails, a second request for the
  Point (256, 128) starts the compiler again and returns 'Compile command failed', not
  the Result of the first request.
\<close>

theorem repeated_request_counterexample:
  "fst (objective (gen_tuning_function (example_platform third_fails)
                     ((TuningOptions example_regexp)\<lparr>repetitions := 1\<rparr>))
          ((TuningOptions example_regexp)\<lparr>repetitions := 1\<rparr>) (256, 128) example_world)
   = Inr (TestResult (256, 128) (Some 1) (Some 0) None)
   \<and> fst (objective (gen_tuning_function (example_platform third_fails)
                       ((TuningOptions example_regexp)\<lparr>repetitions := 1\<rparr>))
            ((TuningOptions example_regexp)\<lparr>repetitions := 1\<rparr>) (256, 128)
            (snd (objective (gen_tuning_function (example_platform third_fails)
                               ((TuningOptions example_regexp)\<lparr>repetitions := 1\<rparr>))
                    ((TuningOptions example_regexp)\<lparr>repetitions := 1\<rparr>) (256, 128)
                    example_world)))
     = Inr (TestResult (256, 128) None None (Some ''Compile command failed''))
   \<and> map command
        (calls (snd (objective (gen_tuning_function (example_platform third_fails)
                       ((TuningOptions example_regexp)\<lparr>repetitions := 1\<rparr>))
            ((TuningOptions example_regexp)\<lparr>repetitions := 1\<rparr>) (256, 128)
            (snd (objective (gen_tuning_function (example_platform third_fails)
                               ((TuningOptions example_regexp)\<lparr>repetitions := 1\<rparr>))
                    ((TuningOptions example_regexp)\<lparr>repetitions := 1\<rparr>) (256, 128)
                    example_world)))))
     = [PGCC_COMPILE, ''./a.out'', PGCC_COMPILE]"
  unfolding example_objective_live first_request snd_conv fst_conv second_request
  by (simp add: calls_def)

text \<open>
  C2, amended: the objective function keeps no cache. In live mode every request for a
  Point within the bounds starts the compile command again (when the template renders),
  whatever has been evaluated before. In replay mode a request returns the same Result in
  every world, so a repeated request returns the Result of the first, and starts no
  process.
\<close>

theorem no_cache:
  "(num_gangs_min opts \<le> fst x \<and> fst x \<le> num_gangs_max opts
      \<and> vector_length_min opts \<le> snd x \<and> snd x \<le> vector_length_max opts
      \<and> format_command P (compile_command opts) (source opts) (fst x) (snd x) = Inr cmd
    \<longrightarrow> (\<exists>es. events (snd (objective (gen_tuning_function P opts) opts x w))
               = events w @ Call \<lparr>command = cmd, env = Some (compile_env x w)\<rparr> # es))
   \<and> fst (objective (gen_testing_function P d) opts x w)
     = fst (objective (gen_testing_function P d) opts x w')
   \<and> calls (snd (objective (gen_testing_function P d) opts x w)) = calls w"
proof (intro conjI impI)
  assume a: "num_gangs_min opts \<le> fst x \<and> fst x \<le> num_gangs_max opts
      \<and> vector_length_min opts \<le> snd x \<and> snd x \<le> vector_length_max opts
      \<and> format_command P (compile_command opts) (source opts) (fst x) (snd x) = Inr cmd"
  then have "objective (gen_tuning_function P opts) opts x w
             = gen_tuning_function P opts x (repetitions opts) w"
    by (auto simp: objective_def Let_def)
  with a show "\<exists>es. events (snd (objective (gen_tuning_function P opts) opts x w))
               = events w @ Call \<lparr>command = cmd, env = Some (compile_env x w)\<rparr> # es"
    using gen_tuning_function_starts_compiler by simp
next
  show "fst (objective (gen_testing_function P d) opts x w)
        = fst (objective (gen_testing_function P d) opts x w')"
    by (simp add: objective_def gen_testing_function_def Let_def)
next
  show "calls (snd (objective (gen_testing_function P d) opts x w)) = calls w"
    by (simp add: objective_def gen_testing_function_def Let_def)
qed

theorem no_cache_witness:
  "(\<exists>es. events (snd (objective (gen_tuning_function (example_platform third_fails)
                                  ((TuningOptions example_regexp)\<lparr>repetitions := 1\<rparr>))
                       ((TuningOptions example_regexp)\<lparr>repetitions := 1\<rparr>) (256, 128)
                       (snd (gen_tuning_function (example_platform third_fails)
                               ((TuningOptions example_regexp)\<lparr>repetitions := 1\<rparr>)
                               (256, 128) 1 example_world))))
          = events (snd (gen_tuning_function (example_platform third_fails)
                           ((TuningOptions example_regexp)\<lparr>repetitions := 1\<rparr>)
                           (256, 128) 1 example_world))
            @ Call \<lparr>command = PGCC_COMPILE,
                    env = Some (compile_env (256, 128)
                                  (snd (gen_tuning_function (example_platform third_fails)
                                          ((TuningOptions example_regexp)\<lparr>repetitions := 1\<rparr>)
                                          (256, 128) 1 example_world)))\<rparr> # es)
   \<and> fst (objective (gen_testing_function (example_platform third_fails) example_data)
            (TuningOptions example_regexp) (256, 128) example_world)
     = fst (objective (gen_testing_function (example_platform third_fails) example_data)
              (TuningOptions example_regexp) (256, 128)
              (snd (objective (gen_testing_function (example_platform third_fails) example_data)
                      (TuningOptions example_regexp) (256, 128) example_world)))
   \<and> calls (snd (objective (gen_testing_function (example_platform third_fails) example_data)
                   (TuningOptions example_regexp) (256, 128) example_world))
     = []"
  using no_cache [of "(TuningOptions example_regexp)\<lparr>repetitions := 1\<rparr>" "(256, 128)"
          "example_platform third_fails" PGCC_COMPILE
          "snd (gen_tuning_function (example_platform third_fails)
                  ((TuningOptions example_regexp)\<lparr>repetitions := 1\<rparr>) (256, 128) 1
                  example_world)"]
        no_cache [of "TuningOptions example_regexp" "(256, 128)"
          "example_platform third_fails" PGCC_COMPILE example_world example_data
          "snd (objective (gen_testing_function (example_platform third_fails) example_data)
                  (TuningOptions example_regexp) (256, 128) example_world)"]
  by (simp add: TuningOptions_def example_platform_def calls_def example_world_def)

end
